theory Spec2Isabelle
  imports Main "HOL-Library.Word" "HOL-Library.Sublist"
begin

section \<open>The httpclient package of subtitles-robot\<close>

text \<open>
  A shallow embedding of \<^verbatim>\<open>httpclient/httpclient.go\<close>. The package is glue over Go's
  \<^verbatim>\<open>net/http\<close>, \<^verbatim>\<open>net/url\<close>, \<^verbatim>\<open>encoding/json\<close>, \<^verbatim>\<open>context\<close> and \<^verbatim>\<open>io\<close>.
  Library calls whose result depends on the outside world or on an algorithm that is not
  part of the package (URL parsing, JSON coding, form encoding, the HTTP round trip) are
  explicit function arguments of the operations that call them; every theorem holds for
  all of them. Effects (creating a timeout context, calling its cancel function, the HTTP
  call, reading and closing a response body) are recorded in an explicit \<open>world\<close> that
  every effectful operation takes and returns. A nil pointer is \<open>None\<close>, and a nil
  dereference is the outcome \<open>Panics\<close>.
\<close>

subsection \<open>Errors and outcomes\<close>

text \<open>
  A Go \<^verbatim>\<open>error\<close> is a value with a message. The constructor records which call
  produced it; \<open>Errorf\<close> is the only error the package builds itself
  (\<^verbatim>\<open>fmt.Errorf\<close> in \<^verbatim>\<open>checkStatusCode\<close>). A nil error is \<open>None :: error option\<close>.
\<close>

datatype error =
    UrlParseError string
  | NewRequestError string
  | JsonMarshalError string
  | JsonDecodeError string
  | TransportError string
  | ReadError string
  | WriteError string
  | Errorf string

fun message :: "error \<Rightarrow> string" where
  "message (UrlParseError m) = m"
| "message (NewRequestError m) = m"
| "message (JsonMarshalError m) = m"
| "message (JsonDecodeError m) = m"
| "message (TransportError m) = m"
| "message (ReadError m) = m"
| "message (WriteError m) = m"
| "message (Errorf m) = m"

text \<open>A call either returns a value or panics (nil dereference, call of a nil func).\<close>

datatype 'a outcome = Returns 'a | Panics

subsection \<open>Data model\<close>

text \<open>\<^verbatim>\<open>time.Duration\<close> is an int64 count of nanoseconds.\<close>

type_synonym Duration = "64 word"

definition Second :: Duration where
  "Second = 1000000000"

text \<open>A parsed \<^verbatim>\<open>*url.URL\<close>: the fields the proxy selection reads.\<close>

record URL =
  Scheme :: string
  Host :: string
  Path :: string

text \<open>\<^verbatim>\<open>http.Transport{Proxy: http.ProxyURL(u)}\<close>: the fixed proxy URL.\<close>

record http_Transport =
  Proxy :: URL

text \<open>
  \<^verbatim>\<open>http.Client\<close>: the cookie jar (\<open>Some\<close> the jar's stored cookies, \<open>None\<close> for a nil
  jar) and the transport (\<open>None\<close> for nil, which makes the library use its default).
\<close>

record http_Client =
  Jar :: "(string \<times> string) list option"
  Transport :: "http_Transport option"

record Client =
  client :: http_Client
  Timeout :: Duration
  UA :: string

record Options =
  Options_Proxy :: string
  Options_UA :: string
  Options_Timeout :: Duration

text \<open>
  \<^verbatim>\<open>http.Header\<close> is a \<^verbatim>\<open>map[string][]string\<close>. \<^verbatim>\<open>Set\<close> replaces the values of a
  key by one value, \<^verbatim>\<open>Get\<close> returns the first value or the empty string. Both
  canonicalise the key; the keys the package uses (\<^verbatim>\<open>User-Agent\<close>, \<^verbatim>\<open>Content-Type\<close>)
  are canonical already.
\<close>

type_synonym Header = "string \<rightharpoonup> string list"

definition Header_Set :: "Header \<Rightarrow> string \<Rightarrow> string \<Rightarrow> Header" where
  "Header_Set h k v = h(k \<mapsto> [v])"

definition Header_Get :: "Header \<Rightarrow> string \<Rightarrow> string" where
  "Header_Get h k = (case h k of None \<Rightarrow> [] | Some [] \<Rightarrow> [] | Some (v # _) \<Rightarrow> v)"

text \<open>
  \<^verbatim>\<open>http.Request\<close>: method, URL, header, body (\<open>None\<close> for a nil reader, else the
  bytes the reader yields) and the id of the context it is bound to.
\<close>

record http_Request =
  Method :: string
  Request_URL :: URL
  Request_Header :: Header
  Request_Body :: "string option"
  Request_ctx :: nat

text \<open>
  A response body is a stream: the bytes it yields, then end of file or a read error.
\<close>

record body =
  content :: string
  read_err :: "error option"

record http_Response =
  StatusCode :: int
  Body :: body

text \<open>
  The package's \<^verbatim>\<open>Request\<close>: the embedded \<^verbatim>\<open>*http.Request\<close>, \<^verbatim>\<open>Err\<close>, \<^verbatim>\<open>Cancel\<close>
  (the cancel function of a context, identified by the context's id; \<open>None\<close> is a nil
  func) and the \<^verbatim>\<open>*Client\<close>.
\<close>

record Request =
  Request_HTTP :: "http_Request option"
  Request_Err :: "error option"
  Request_Cancel :: "nat option"
  Request_Client :: "Client option"

text \<open>The package's \<^verbatim>\<open>Response\<close>: embedded \<^verbatim>\<open>*http.Response\<close>, \<^verbatim>\<open>*Request\<close>, \<^verbatim>\<open>Err\<close>.\<close>

record Response =
  Response_HTTP :: "http_Response option"
  Response_Request :: "Request option"
  Response_Err :: "error option"

subsection \<open>Effects\<close>

datatype event =
    EvWithTimeout nat Duration
  | EvCancel nat
  | EvDo http_Request
  | EvReadBody
  | EvCloseBody

record world =
  next_ctx :: nat
  trace :: "event list"

definition emit :: "event \<Rightarrow> world \<Rightarrow> world" where
  "emit e w = w\<lparr>trace := trace w @ [e]\<rparr>"

text \<open>
  \<^verbatim>\<open>context.WithTimeout(context.Background(), d)\<close>: a fresh context; the returned cancel
  function is identified with the context's id.
\<close>

definition context_WithTimeout :: "Duration \<Rightarrow> world \<Rightarrow> nat \<times> world" where
  "context_WithTimeout d w =
     (next_ctx w, emit (EvWithTimeout (next_ctx w) d) (w\<lparr>next_ctx := Suc (next_ctx w)\<rparr>))"

definition cancel :: "nat \<Rightarrow> world \<Rightarrow> world" where
  "cancel i w = emit (EvCancel i) w"

text \<open>How often the cancel function of context \<open>i\<close> has been called.\<close>

definition cancel_count :: "nat \<Rightarrow> world \<Rightarrow> nat" where
  "cancel_count i w = length (filter (\<lambda>e. e = EvCancel i) (trace w))"

definition contexts_created :: "world \<Rightarrow> nat" where
  "contexts_created w =
     length (filter (\<lambda>e. case e of EvWithTimeout _ _ \<Rightarrow> True | _ \<Rightarrow> False) (trace w))"

subsection \<open>New\<close>

definition default_UA :: string where
  "default_UA = ''Mozilla/5.0 (Windows NT 10.0; Win64; x64) AppleWebKit/537.36 (KHTML, like Gecko) Chrome/106.0.0.0 Safari/537.36''"

text \<open>
  \<^verbatim>\<open>New(o *Options) (*Client, error)\<close>. \<open>url_Parse\<close> is \<^verbatim>\<open>url.Parse\<close>. The function
  returns \<^verbatim>\<open>(nil, err)\<close> or \<^verbatim>\<open>(&c, nil)\<close>: \<open>Inl err\<close> or \<open>Inr c\<close>. It takes no world and
  no transport: the source calls nothing but \<^verbatim>\<open>cookiejar.New\<close> and \<^verbatim>\<open>url.Parse\<close>.
\<close>

definition New :: "(string \<Rightarrow> error + URL) \<Rightarrow> Options option \<Rightarrow> error + Client" where
  "New url_Parse o_opt =
     (let c = \<lparr>client = \<lparr>Jar = Some [], Transport = None\<rparr>,
                Timeout = Second * 30, UA = default_UA\<rparr>
      in case o_opt of
           None \<Rightarrow> Inr c
         | Some opts \<Rightarrow>
             (case (if Options_Proxy opts = [] then Inr c
                    else (case url_Parse (Options_Proxy opts) of
                            Inl err \<Rightarrow> Inl err
                          | Inr u \<Rightarrow> Inr (c\<lparr>client := (client c)\<lparr>Transport := Some \<lparr>Proxy = u\<rparr>\<rparr>\<rparr>))) of
                Inl err \<Rightarrow> Inl err
              | Inr c1 \<Rightarrow>
                  (let c2 = (if 0 < sint (Options_Timeout opts)
                             then c1\<lparr>Timeout := Options_Timeout opts\<rparr> else c1);
                       c3 = (if Options_UA opts = [] then c2 else c2\<lparr>UA := Options_UA opts\<rparr>)
                   in Inr c3)))"

subsection \<open>Building requests\<close>

text \<open>
  \<^verbatim>\<open>http.NewRequestWithContext(ctx, method, url, body)\<close> of the Go library, as its
  documentation and source give it: an empty method means GET, the method must be a
  token, the URL is parsed with \<^verbatim>\<open>url.Parse\<close>, and the request that is returned carries
  the method, the parsed URL, an empty header, the body and the context. The context is
  never nil here.
\<close>

definition isTokenChar :: "char \<Rightarrow> bool" where
  "isTokenChar c =
     (c \<in> set (''!#$%&*+-.^_|~0123456789'' @ [CHR 0x27, CHR 0x60]
            @ ''abcdefghijklmnopqrstuvwxyz'' @ ''ABCDEFGHIJKLMNOPQRSTUVWXYZ''))"

definition validMethod :: "string \<Rightarrow> bool" where
  "validMethod m = (0 < length m \<and> list_all isTokenChar m)"

definition http_NewRequestWithContext ::
  "(string \<Rightarrow> error + URL) \<Rightarrow> nat \<Rightarrow> string \<Rightarrow> string \<Rightarrow> string option
     \<Rightarrow> error + http_Request" where
  "http_NewRequestWithContext url_Parse ctx method url body =
     (let m = (if method = [] then ''GET'' else method)
      in if validMethod m
         then (case url_Parse url of
                 Inl err \<Rightarrow> Inl err
               | Inr u \<Rightarrow> Inr \<lparr>Method = m, Request_URL = u, Request_Header = Map.empty,
                              Request_Body = body, Request_ctx = ctx\<rparr>)
         else Inl (NewRequestError ''net/http: invalid method''))"

definition setDefault :: "Client \<Rightarrow> http_Request \<Rightarrow> http_Request" where
  "setDefault c r = r\<lparr>Request_Header := Header_Set (Request_Header r) ''User-Agent'' (UA c)\<rparr>"

text \<open>
  \<^verbatim>\<open>makeRequest(method, url, body)\<close>. The source passes the literal \<^verbatim>\<open>"GET"\<close> to the
  library and never reads its \<open>method\<close> parameter. On failure it calls \<^verbatim>\<open>cancel()\<close> and
  returns \<^verbatim>\<open>&Request{Err: err}\<close>: the other three fields are nil.
\<close>

definition makeRequest ::
  "(string \<Rightarrow> error + URL) \<Rightarrow> Client \<Rightarrow> string \<Rightarrow> string \<Rightarrow> string option \<Rightarrow> world
     \<Rightarrow> Request \<times> world" where
  "makeRequest url_Parse c method url body w =
     (let (ctx, w1) = context_WithTimeout (Timeout c) w
      in case http_NewRequestWithContext url_Parse ctx ''GET'' url body of
           Inl err \<Rightarrow>
             (\<lparr>Request_HTTP = None, Request_Err = Some err, Request_Cancel = None,
               Request_Client = None\<rparr>, cancel ctx w1)
         | Inr req \<Rightarrow>
             (\<lparr>Request_HTTP = Some (setDefault c req), Request_Err = None,
               Request_Cancel = Some ctx, Request_Client = Some c\<rparr>, w1))"

definition Get :: "(string \<Rightarrow> error + URL) \<Rightarrow> Client \<Rightarrow> string \<Rightarrow> world \<Rightarrow> Request \<times> world" where
  "Get url_Parse c url w = makeRequest url_Parse c ''GET'' url None w"

text \<open>
  \<^verbatim>\<open>req.Header.Set(k, v)\<close> on the embedded request. The callers reach it only when
  \<^verbatim>\<open>req.Err == nil\<close>, where \<open>makeRequest\<close> has set the embedded request.
\<close>

definition set_header :: "string \<Rightarrow> string \<Rightarrow> Request \<Rightarrow> Request" where
  "set_header k v req =
     req\<lparr>Request_HTTP :=
           map_option (\<lambda>r. r\<lparr>Request_Header := Header_Set (Request_Header r) k v\<rparr>)
             (Request_HTTP req)\<rparr>"

text \<open>
  \<^verbatim>\<open>PostJSON(url, body)\<close>. \<open>json_Marshal\<close> is \<^verbatim>\<open>json.Marshal\<close> on the type of the body.
\<close>

definition PostJSON ::
  "('v \<Rightarrow> error + string) \<Rightarrow> (string \<Rightarrow> error + URL) \<Rightarrow> Client \<Rightarrow> string \<Rightarrow> 'v \<Rightarrow> world
     \<Rightarrow> Request \<times> world" where
  "PostJSON json_Marshal url_Parse c url v w =
     (case json_Marshal v of
        Inl err \<Rightarrow>
          (\<lparr>Request_HTTP = None, Request_Err = Some err, Request_Cancel = None,
            Request_Client = None\<rparr>, w)
      | Inr data \<Rightarrow>
          (let (req, w1) = makeRequest url_Parse c ''POST'' url (Some data) w
           in case Request_Err req of
                Some _ \<Rightarrow> (req, w1)
              | None \<Rightarrow> (set_header ''Content-Type'' ''application/json'' req, w1)))"

text \<open>
  \<^verbatim>\<open>PostForm(url, values)\<close>. \<^verbatim>\<open>url.Values\<close> is a \<^verbatim>\<open>map[string][]string\<close>;
  \<open>values_Encode\<close> is its \<^verbatim>\<open>Encode\<close> method.
\<close>

type_synonym Values = "(string \<times> string list) list"

definition PostForm ::
  "(Values \<Rightarrow> string) \<Rightarrow> (string \<Rightarrow> error + URL) \<Rightarrow> Client \<Rightarrow> string \<Rightarrow> Values \<Rightarrow> world
     \<Rightarrow> Request \<times> world" where
  "PostForm values_Encode url_Parse c url vals w =
     (let (req, w1) = makeRequest url_Parse c ''POST'' url (Some (values_Encode vals)) w
      in case Request_Err req of
           Some _ \<Rightarrow> (req, w1)
         | None \<Rightarrow> (set_header ''Content-Type'' ''application/x-www-form-urlencoded'' req, w1))"

subsection \<open>Invoke\<close>

text \<open>
  \<^verbatim>\<open>req.Invoke()\<close>. \<open>Do\<close> is \<^verbatim>\<open>http.Client.Do\<close>: given the world, the client and the
  request it yields an error or a response. The library's error is nil exactly when the
  response is valid, and the source drops the response whenever the error is not nil.
  \<^verbatim>\<open>req.Client.client\<close> panics on a nil \<^verbatim>\<open>Client\<close>, and \<^verbatim>\<open>Do(nil)\<close> panics.
\<close>

definition Invoke ::
  "(world \<Rightarrow> http_Client \<Rightarrow> http_Request \<Rightarrow> error + http_Response) \<Rightarrow> Request \<Rightarrow> world
     \<Rightarrow> Response outcome \<times> world" where
  "Invoke Do req w =
     (case Request_Err req of
        Some e \<Rightarrow>
          (Returns \<lparr>Response_HTTP = None, Response_Request = Some req, Response_Err = Some e\<rparr>, w)
      | None \<Rightarrow>
          (case Request_Client req of
             None \<Rightarrow> (Panics, w)
           | Some c \<Rightarrow>
               (case Request_HTTP req of
                  None \<Rightarrow> (Panics, w)
                | Some r \<Rightarrow>
                    (case Do w (client c) r of
                       Inl err \<Rightarrow>
                         (Returns \<lparr>Response_HTTP = None, Response_Request = Some req,
                                   Response_Err = Some err\<rparr>, emit (EvDo r) w)
                     | Inr rsp \<Rightarrow>
                         (Returns \<lparr>Response_HTTP = Some rsp, Response_Request = Some req,
                                   Response_Err = None\<rparr>, emit (EvDo r) w)))))"

subsection \<open>Consuming a response\<close>

text \<open>The verb \<^verbatim>\<open>%d\<close> of \<^verbatim>\<open>fmt\<close>: an integer in decimal, with a minus sign when negative.\<close>

definition digit_char :: "nat \<Rightarrow> char" where
  "digit_char d = char_of (48 + d)"

fun show_nat :: "nat \<Rightarrow> string" where
  "show_nat n = (if n < 10 then [digit_char n] else show_nat (n div 10) @ [digit_char (n mod 10)])"

declare show_nat.simps [simp del]

definition show_int :: "int \<Rightarrow> string" where
  "show_int i = (if i < 0 then CHR ''-'' # show_nat (nat (- i)) else show_nat (nat i))"

text \<open>\<^verbatim>\<open>io.ReadAll\<close>: the bytes read until end of file or the first read error.\<close>

definition io_ReadAll :: "body \<Rightarrow> string \<times> error option" where
  "io_ReadAll b = (content b, read_err b)"

text \<open>
  \<^verbatim>\<open>checkStatusCode\<close>: on a status other than 200, reads the body, ignores the read
  error, and formats \<^verbatim>\<open>"Response %d, body=%s"\<close>.
\<close>

definition checkStatusCode :: "http_Response \<Rightarrow> world \<Rightarrow> error option \<times> world" where
  "checkStatusCode hr w =
     (if StatusCode hr = 200 then (None, w)
      else (let (data, _) = io_ReadAll (Body hr)
            in (Some (Errorf (''Response '' @ show_int (StatusCode hr) @ '', body='' @ data)),
                emit EvReadBody w)))"

text \<open>
  The two deferred calls of \<^verbatim>\<open>Drop\<close>, \<^verbatim>\<open>JSON\<close> and \<^verbatim>\<open>WriteTo\<close>, run in reverse order
  when the function returns \<open>r\<close>: \<^verbatim>\<open>rsp.Body.Close()\<close>, then \<^verbatim>\<open>rsp.Request.Cancel()\<close>,
  which panics when \<^verbatim>\<open>Cancel\<close> is a nil func.
\<close>

definition run_deferred :: "Request \<Rightarrow> 'a \<Rightarrow> world \<Rightarrow> 'a outcome \<times> world" where
  "run_deferred rq r w =
     (case Request_Cancel rq of
        None \<Rightarrow> (Panics, emit EvCloseBody w)
      | Some i \<Rightarrow> (Returns r, cancel i (emit EvCloseBody w)))"

text \<open>
  What happens when \<^verbatim>\<open>defer rsp.Body.Close()\<close> is reached with a nil embedded response:
  evaluating \<^verbatim>\<open>rsp.Body\<close> panics, and the one deferred call registered so far,
  \<^verbatim>\<open>Cancel\<close>, runs while the panic unwinds.
\<close>

definition panic_at_Body :: "Request \<Rightarrow> world \<Rightarrow> world" where
  "panic_at_Body rq w = (case Request_Cancel rq of None \<Rightarrow> w | Some i \<Rightarrow> cancel i w)"

text \<open>\<^verbatim>\<open>rsp.Drop()\<close>.\<close>

definition Drop :: "Response \<Rightarrow> world \<Rightarrow> error option outcome \<times> world" where
  "Drop rsp w =
     (case Response_Err rsp of
        Some e \<Rightarrow> (Returns (Some e), w)
      | None \<Rightarrow>
          (case Response_Request rsp of
             None \<Rightarrow> (Panics, w)
           | Some rq \<Rightarrow>
               (case Response_HTTP rsp of
                  None \<Rightarrow> (Panics, panic_at_Body rq w)
                | Some hr \<Rightarrow>
                    (let (r, w1) = checkStatusCode hr w in run_deferred rq r w1))))"

text \<open>
  \<^verbatim>\<open>rsp.JSON(o)\<close>. \<open>json_Decode\<close> is \<^verbatim>\<open>json.NewDecoder(body).Decode(o)\<close>: from the body
  stream and the value the target holds, the error and the value the target holds
  afterwards. The second component of the result is the target after the call.
\<close>

definition JSON ::
  "(body \<Rightarrow> 'v \<Rightarrow> error option \<times> 'v) \<Rightarrow> Response \<Rightarrow> 'v \<Rightarrow> world
     \<Rightarrow> error option outcome \<times> 'v \<times> world" where
  "JSON json_Decode rsp target w =
     (case Response_Err rsp of
        Some e \<Rightarrow> (Returns (Some e), target, w)
      | None \<Rightarrow>
          (case Response_Request rsp of
             None \<Rightarrow> (Panics, target, w)
           | Some rq \<Rightarrow>
               (case Response_HTTP rsp of
                  None \<Rightarrow> (Panics, target, panic_at_Body rq w)
                | Some hr \<Rightarrow>
                    (case checkStatusCode hr w of
                       (Some err, w1) \<Rightarrow>
                         (let (res, w2) = run_deferred rq (Some err) w1 in (res, target, w2))
                     | (None, w1) \<Rightarrow>
                         (let (derr, target') = json_Decode (Body hr) target;
                              (res, w2) = run_deferred rq derr (emit EvReadBody w1)
                          in (res, target', w2))))))"

text \<open>
  An \<^verbatim>\<open>io.Writer\<close>: the bytes written to it so far, how many more it accepts (\<open>None\<close>:
  any number) and the error it fails with once it is full.
\<close>

record Writer =
  written :: string
  capacity :: "nat option"
  write_err :: error

text \<open>
  \<^verbatim>\<open>io.Copy(w, body)\<close>: writes what the body yields until end of file or the first
  error; returns the number of bytes written and that error. The count is an int64 in
  the source; the length of a body stays far below its range, so it is an \<open>int\<close> here.
\<close>

definition io_Copy :: "Writer \<Rightarrow> body \<Rightarrow> (int \<times> error option) \<times> Writer" where
  "io_Copy wr b =
     (case capacity wr of
        None \<Rightarrow> ((int (length (content b)), read_err b), wr\<lparr>written := written wr @ content b\<rparr>)
      | Some k \<Rightarrow>
          (if length (content b) \<le> k
           then ((int (length (content b)), read_err b),
                 wr\<lparr>written := written wr @ content b, capacity := Some (k - length (content b))\<rparr>)
           else ((int k, Some (write_err wr)),
                 wr\<lparr>written := written wr @ take k (content b), capacity := Some 0\<rparr>)))"

text \<open>\<^verbatim>\<open>rsp.WriteTo(w)\<close>. The second component of the result is the writer after the call.\<close>

definition WriteTo ::
  "Response \<Rightarrow> Writer \<Rightarrow> world \<Rightarrow> (int \<times> error option) outcome \<times> Writer \<times> world" where
  "WriteTo rsp wr w =
     (case Response_Err rsp of
        Some e \<Rightarrow> (Returns (0, Some e), wr, w)
      | None \<Rightarrow>
          (case Response_Request rsp of
             None \<Rightarrow> (Panics, wr, w)
           | Some rq \<Rightarrow>
               (case Response_HTTP rsp of
                  None \<Rightarrow> (Panics, wr, panic_at_Body rq w)
                | Some hr \<Rightarrow>
                    (case checkStatusCode hr w of
                       (Some err, w1) \<Rightarrow>
                         (let (res, w2) = run_deferred rq (0, Some err) w1 in (res, wr, w2))
                     | (None, w1) \<Rightarrow>
                         (let (r, wr') = io_Copy wr (Body hr);
                              (res, w2) = run_deferred rq r (emit EvReadBody w1)
                          in (res, wr', w2))))))"

subsection \<open>Call chains\<close>

text \<open>
  The chains the package's tests run: \<^verbatim>\<open>c.Get(url).Invoke().Drop()\<close>,
  \<^verbatim>\<open>c.Get(url).Invoke().JSON(&o)\<close> and \<^verbatim>\<open>c.Get(url).Invoke().WriteTo(&b)\<close>. A panic
  of \<open>Invoke\<close> ends the chain.
\<close>

definition Get_Invoke_Drop ::
  "(string \<Rightarrow> error + URL) \<Rightarrow> (world \<Rightarrow> http_Client \<Rightarrow> http_Request \<Rightarrow> error + http_Response)
     \<Rightarrow> Client \<Rightarrow> string \<Rightarrow> world \<Rightarrow> error option outcome \<times> world" where
  "Get_Invoke_Drop url_Parse Do c url w =
     (let (req, w1) = Get url_Parse c url w
      in case Invoke Do req w1 of
           (Panics, w2) \<Rightarrow> (Panics, w2)
         | (Returns rsp, w2) \<Rightarrow> Drop rsp w2)"

definition Get_Invoke_JSON ::
  "(string \<Rightarrow> error + URL) \<Rightarrow> (world \<Rightarrow> http_Client \<Rightarrow> http_Request \<Rightarrow> error + http_Response)
     \<Rightarrow> (body \<Rightarrow> 'v \<Rightarrow> error option \<times> 'v) \<Rightarrow> Client \<Rightarrow> string \<Rightarrow> 'v \<Rightarrow> world
     \<Rightarrow> error option outcome \<times> 'v \<times> world" where
  "Get_Invoke_JSON url_Parse Do json_Decode c url target w =
     (let (req, w1) = Get url_Parse c url w
      in case Invoke Do req w1 of
           (Panics, w2) \<Rightarrow> (Panics, target, w2)
         | (Returns rsp, w2) \<Rightarrow> JSON json_Decode rsp target w2)"

definition Get_Invoke_WriteTo ::
  "(string \<Rightarrow> error + URL) \<Rightarrow> (world \<Rightarrow> http_Client \<Rightarrow> http_Request \<Rightarrow> error + http_Response)
     \<Rightarrow> Client \<Rightarrow> string \<Rightarrow> Writer \<Rightarrow> world
     \<Rightarrow> (int \<times> error option) outcome \<times> Writer \<times> world" where
  "Get_Invoke_WriteTo url_Parse Do c url wr w =
     (let (req, w1) = Get url_Parse c url w
      in case Invoke Do req w1 of
           (Panics, w2) \<Rightarrow> (Panics, wr, w2)
         | (Returns rsp, w2) \<Rightarrow> WriteTo rsp wr w2)"


subsection \<open>Shapes and observations\<close>

text \<open>The value of a header of the embedded request, when there is one.\<close>

definition header_of :: "Request \<Rightarrow> string \<Rightarrow> string option" where
  "header_of req k = map_option (\<lambda>r. Header_Get (Request_Header r) k) (Request_HTTP req)"

definition method_of :: "Request \<Rightarrow> string option" where
  "method_of req = map_option Method (Request_HTTP req)"

text \<open>Whether a writer takes \<open>n\<close> more bytes without failing.\<close>

definition accepts :: "Writer \<Rightarrow> nat \<Rightarrow> bool" where
  "accepts wr n = (case capacity wr of None \<Rightarrow> True | Some k \<Rightarrow> n \<le> k)"

subsection \<open>Instances of the library calls\<close>

text \<open>
  Small instances of the calls that the operations take as arguments, for evaluating the
  operations on concrete inputs. They stand for one possible behaviour of the library and
  the network each; no general theorem below depends on them.
\<close>

text \<open>A parser that rejects a URL starting with a colon, as \<^verbatim>\<open>url.Parse\<close> does.\<close>

definition example_Parse :: "string \<Rightarrow> error + URL" where
  "example_Parse s =
     (case s of
        [] \<Rightarrow> Inr \<lparr>Scheme = [], Host = [], Path = []\<rparr>
      | ch # _ \<Rightarrow>
          (if ch = CHR '':'' then Inl (UrlParseError ''missing protocol scheme'')
           else Inr \<lparr>Scheme = takeWhile (\<lambda>x. x \<noteq> CHR '':'') s, Host = [], Path = s\<rparr>))"

text \<open>The JSON coding of a boolean.\<close>

definition example_Marshal :: "bool \<Rightarrow> error + string" where
  "example_Marshal b = Inr (if b then ''true'' else ''false'')"

definition example_Decode :: "body \<Rightarrow> bool \<Rightarrow> error option \<times> bool" where
  "example_Decode b target =
     (if content b = ''true'' then (None, True)
      else if content b = ''false'' then (None, False)
      else (Some (JsonDecodeError ''invalid character''), target))"

definition example_Encode :: "Values \<Rightarrow> string" where
  "example_Encode vals = concat (map (\<lambda>(k, vs). concat (map (\<lambda>v. k @ ''='' @ v @ ''&'') vs)) vals)"

text \<open>A network on which every call fails.\<close>

definition refusing_Do :: "world \<Rightarrow> http_Client \<Rightarrow> http_Request \<Rightarrow> error + http_Response" where
  "refusing_Do w cl r = Inl (TransportError ''connection refused'')"

text \<open>An endpoint that answers every request with a fixed status and body.\<close>

definition fixed_Do ::
  "int \<Rightarrow> string \<Rightarrow> world \<Rightarrow> http_Client \<Rightarrow> http_Request \<Rightarrow> error + http_Response" where
  "fixed_Do code text w cl r = Inr \<lparr>StatusCode = code, Body = \<lparr>content = text, read_err = None\<rparr>\<rparr>"

text \<open>An endpoint that answers 200 with exactly the bytes of the request's body.\<close>

definition echo_Do :: "world \<Rightarrow> http_Client \<Rightarrow> http_Request \<Rightarrow> error + http_Response" where
  "echo_Do w cl r =
     Inr \<lparr>StatusCode = 200,
          Body = \<lparr>content = (case Request_Body r of None \<Rightarrow> [] | Some d \<Rightarrow> d), read_err = None\<rparr>\<rparr>"

definition world0 :: world where
  "world0 = \<lparr>next_ctx = 0, trace = []\<rparr>"

text \<open>The client of \<^verbatim>\<open>New(nil)\<close>.\<close>

definition default_Client :: Client where
  "default_Client =
     \<lparr>client = \<lparr>Jar = Some [], Transport = None\<rparr>, Timeout = 30000000000, UA = default_UA\<rparr>"

definition sink0 :: Writer where
  "sink0 = \<lparr>written = [], capacity = None, write_err = WriteError ''full''\<rparr>"

text \<open>Requests and responses used as concrete inputs.\<close>

definition failed_Request :: Request where
  "failed_Request =
     \<lparr>Request_HTTP = None, Request_Err = Some (UrlParseError ''missing protocol scheme''),
      Request_Cancel = None, Request_Client = None\<rparr>"

definition failed_Response :: Response where
  "failed_Response =
     \<lparr>Response_HTTP = None, Response_Request = Some failed_Request,
      Response_Err = Some (UrlParseError ''missing protocol scheme'')\<rparr>"

definition not_found_Response :: Response where
  "not_found_Response =
     \<lparr>Response_HTTP = Some \<lparr>StatusCode = 404, Body = \<lparr>content = ''not found'', read_err = None\<rparr>\<rparr>,
      Response_Request = Some \<lparr>Request_HTTP = None, Request_Err = None, Request_Cancel = Some 0,
                               Request_Client = None\<rparr>,
      Response_Err = None\<rparr>"

definition ok_Response :: Response where
  "ok_Response =
     \<lparr>Response_HTTP = Some \<lparr>StatusCode = 200, Body = \<lparr>content = ''1\<newline>'', read_err = None\<rparr>\<rparr>,
      Response_Request = Some \<lparr>Request_HTTP = None, Request_Err = None, Request_Cancel = Some 0,
                               Request_Client = None\<rparr>,
      Response_Err = None\<rparr>"

section \<open>Basic facts\<close>

lemma validMethod_GET [simp]: "validMethod ''GET''"
  by (simp add: validMethod_def isTokenChar_def)

lemma example_Parse_ok:
  "example_Parse ''http://example.com/'' =
     Inr \<lparr>Scheme = ''http'', Host = [], Path = ''http://example.com/''\<rparr>"
  by (simp add: example_Parse_def)

lemma show_int_404: "show_int 404 = ''404''"
  by code_simp

text \<open>What \<open>makeRequest\<close> returns, by the two results of the URL parser.\<close>

lemma makeRequest_parse_error:
  "url_Parse url = Inl err \<Longrightarrow>
   makeRequest url_Parse c m url b w =
     (\<lparr>Request_HTTP = None, Request_Err = Some err, Request_Cancel = None, Request_Client = None\<rparr>,
      cancel (next_ctx w) (snd (context_WithTimeout (Timeout c) w)))"
  by (simp add: makeRequest_def http_NewRequestWithContext_def context_WithTimeout_def)

lemma makeRequest_parse_ok:
  "url_Parse url = Inr u \<Longrightarrow>
   makeRequest url_Parse c m url b w =
     (\<lparr>Request_HTTP = Some \<lparr>Method = ''GET'', Request_URL = u,
                            Request_Header = Header_Set Map.empty ''User-Agent'' (UA c),
                            Request_Body = b, Request_ctx = next_ctx w\<rparr>,
       Request_Err = None, Request_Cancel = Some (next_ctx w), Request_Client = Some c\<rparr>,
      snd (context_WithTimeout (Timeout c) w))"
  by (simp add: makeRequest_def http_NewRequestWithContext_def context_WithTimeout_def setDefault_def)

lemmas example_makeRequest = makeRequest_parse_ok [where url_Parse = example_Parse, OF example_Parse_ok]

lemma Header_Get_Set_same [simp]: "Header_Get (Header_Set h k v) k = v"
  by (simp add: Header_Get_def Header_Set_def)

lemma Header_Get_Set_other [simp]:
  "k' \<noteq> k \<Longrightarrow> Header_Get (Header_Set h k v) k' = Header_Get h k'"
  by (simp add: Header_Get_def Header_Set_def)

lemma checkStatusCode_200: "StatusCode hr = 200 \<Longrightarrow> checkStatusCode hr w = (None, w)"
  by (simp add: checkStatusCode_def)

lemma checkStatusCode_other:
  "StatusCode hr \<noteq> 200 \<Longrightarrow>
   checkStatusCode hr w =
     (Some (Errorf (''Response '' @ show_int (StatusCode hr) @ '', body='' @ content (Body hr))),
      emit EvReadBody w)"
  by (simp add: checkStatusCode_def io_ReadAll_def)

lemma sublist_status_message:
  "sublist code (pre @ code @ mid @ text)" "sublist text (pre @ code @ mid @ text)"
proof -
  show "sublist code (pre @ code @ mid @ text)"
    by (rule sublist_appendI)
  have "pre @ code @ mid @ text = (pre @ code @ mid) @ text @ []" by simp
  then show "sublist text (pre @ code @ mid @ text)"
    unfolding sublist_def by blast
qed

text \<open>
  A request built by one of the three constructors with \<^verbatim>\<open>Err == nil\<close> has its embedded
  request, its \<^verbatim>\<open>Cancel\<close> and its \<^verbatim>\<open>Client\<close> set; \<open>Invoke\<close> does not panic on it, and the
  response it returns points back to it. These are the responses the theorems on
  \<open>Drop\<close>, \<open>JSON\<close> and \<open>WriteTo\<close> below are about.
\<close>

lemma makeRequest_built:
  assumes "Request_Err (fst (makeRequest url_Parse c m url b w)) = None"
  shows "\<exists>r i. Request_HTTP (fst (makeRequest url_Parse c m url b w)) = Some r
             \<and> Request_Cancel (fst (makeRequest url_Parse c m url b w)) = Some i
             \<and> Request_Client (fst (makeRequest url_Parse c m url b w)) = Some c"
  using assms
  by (cases "url_Parse url") (simp_all add: makeRequest_parse_error makeRequest_parse_ok)

lemma Invoke_built_returns:
  assumes "Request_HTTP req = Some r" and "Request_Client req = Some c"
  shows "\<exists>rsp w'. Invoke Do req w = (Returns rsp, w') \<and> Response_Request rsp = Some req"
  using assms
  by (cases "Request_Err req"; cases "Do w (client c) r") (simp_all add: Invoke_def)

text \<open>The method of a request built by \<open>PostJSON\<close> or \<open>PostForm\<close> is never POST.\<close>

lemma PostJSON_method_never_POST:
  "method_of (fst (PostJSON json_Marshal url_Parse c url v w)) \<noteq> Some ''POST''"
  by (cases "url_Parse url"; cases "json_Marshal v")
     (simp_all add: PostJSON_def makeRequest_parse_ok makeRequest_parse_error set_header_def
        method_of_def)

lemma PostForm_method_never_POST:
  "method_of (fst (PostForm values_Encode url_Parse c url vals w)) \<noteq> Some ''POST''"
  by (cases "url_Parse url")
     (simp_all add: PostForm_def makeRequest_parse_ok makeRequest_parse_error set_header_def
        method_of_def)

subsection \<open>Counting cancel calls along \<^verbatim>\<open>Get(url).Invoke().Drop()\<close>\<close>

lemma cancel_count_emit:
  "cancel_count i (emit e w) = cancel_count i w + (if e = EvCancel i then 1 else 0)"
  by (simp add: cancel_count_def emit_def)

lemma cancel_count_WithTimeout:
  "cancel_count i (snd (context_WithTimeout d w)) = cancel_count i w"
  by (simp add: context_WithTimeout_def cancel_count_def emit_def)

lemma cancel_count_checkStatusCode:
  "cancel_count i (snd (checkStatusCode hr w)) = cancel_count i w"
  by (simp add: checkStatusCode_def io_ReadAll_def cancel_count_emit)

text \<open>The URL does not parse: \<open>makeRequest\<close> calls the cancel function, once.\<close>

lemma Get_Invoke_Drop_parse_error_cancels_once:
  assumes "url_Parse url = Inl err"
  shows "cancel_count (next_ctx w) (snd (Get_Invoke_Drop url_Parse Do c url w))
           = cancel_count (next_ctx w) w + 1"
  using assms
  by (simp add: Get_Invoke_Drop_def Get_def makeRequest_parse_error Invoke_def Drop_def
        cancel_def cancel_count_emit cancel_count_WithTimeout)

text \<open>The call yields a response, of any status: \<open>Drop\<close> calls the cancel function, once.\<close>

lemma Get_Invoke_Drop_response_cancels_once:
  assumes "url_Parse url = Inr u" and "\<And>w' cl r. \<exists>hr. Do w' cl r = Inr hr"
  shows "cancel_count (next_ctx w) (snd (Get_Invoke_Drop url_Parse Do c url w))
           = cancel_count (next_ctx w) w + 1"
proof -
  let ?r = "\<lparr>Method = ''GET'', Request_URL = u,
             Request_Header = Header_Set Map.empty ''User-Agent'' (UA c),
             Request_Body = None, Request_ctx = next_ctx w\<rparr>"
  let ?w1 = "snd (context_WithTimeout (Timeout c) w)"
  from assms(2) obtain hr where "Do ?w1 (client c) ?r = Inr hr" by blast
  with assms(1) show ?thesis
    by (simp add: Get_Invoke_Drop_def Get_def makeRequest_parse_ok Invoke_def Drop_def
          run_deferred_def cancel_def cancel_count_emit cancel_count_WithTimeout
          cancel_count_checkStatusCode split_def Let_def)
qed

text \<open>The call fails: nothing calls the cancel function of the request's context.\<close>

lemma Get_Invoke_Drop_transport_error_never_cancels:
  assumes "url_Parse url = Inr u" and "\<And>w' cl r. \<exists>e. Do w' cl r = Inl e"
  shows "cancel_count (next_ctx w) (snd (Get_Invoke_Drop url_Parse Do c url w))
           = cancel_count (next_ctx w) w"
proof -
  let ?r = "\<lparr>Method = ''GET'', Request_URL = u,
             Request_Header = Header_Set Map.empty ''User-Agent'' (UA c),
             Request_Body = None, Request_ctx = next_ctx w\<rparr>"
  let ?w1 = "snd (context_WithTimeout (Timeout c) w)"
  from assms(2) obtain e where "Do ?w1 (client c) ?r = Inl e" by blast
  with assms(1) show ?thesis
    by (simp add: Get_Invoke_Drop_def Get_def makeRequest_parse_ok Invoke_def Drop_def
          cancel_count_emit cancel_count_WithTimeout)
qed

section \<open>The claims\<close>

text \<open>
  Claim C1: the request built by \<open>PostJSON\<close> and the request built by \<open>PostForm\<close> carry
  the HTTP method POST. The source does not do this: \<open>makeRequest\<close> hands the literal
  \<^verbatim>\<open>"GET"\<close> to the library whatever method it is given. Evaluated for the URL
  \<^verbatim>\<open>http://example.com/\<close>, the JSON body \<^verbatim>\<open>true\<close> and the form \<^verbatim>\<open>q=x\<close>: both requests
  carry the method GET.
\<close>

theorem post_requests_carry_GET:
  "method_of (fst (PostJSON example_Marshal example_Parse default_Client ''http://example.com/''
                     True world0))
     = Some ''GET''
   \<and> method_of (fst (PostForm example_Encode example_Parse default_Client ''http://example.com/''
                       [(''q'', [''x''])] world0))
     = Some ''GET''"
  by (simp add: PostJSON_def PostForm_def example_Marshal_def example_makeRequest
        set_header_def method_of_def)

text \<open>
  Claim C2: for a response without error whose status code is not 200, each of \<open>Drop\<close>,
  \<open>JSON\<close> and \<open>WriteTo\<close> returns an error whose message contains the status code in
  decimal and the text of the body; for status 200, \<open>Drop\<close> returns nil. The response is
  one that \<open>Invoke\<close> returns for a built request: it refers to its request, and the
  request has a cancel function.
\<close>

theorem status_policy:
  assumes "Response_Err rsp = None" and "Response_HTTP rsp = Some hr"
    and "Response_Request rsp = Some rq" and "Request_Cancel rq = Some i"
  shows "(StatusCode hr \<noteq> 200 \<longrightarrow>
            (\<exists>err. fst (Drop rsp w) = Returns (Some err)
                 \<and> fst (JSON json_Decode rsp target w) = Returns (Some err)
                 \<and> fst (WriteTo rsp wr w) = Returns (0, Some err)
                 \<and> sublist (show_int (StatusCode hr)) (message err)
                 \<and> sublist (content (Body hr)) (message err)))
       \<and> (StatusCode hr = 200 \<longrightarrow> fst (Drop rsp w) = Returns None)"
proof (cases "StatusCode hr = 200")
  case True
  with assms show ?thesis
    by (simp add: Drop_def checkStatusCode_200 run_deferred_def)
next
  case False
  let ?err = "Errorf (''Response '' @ show_int (StatusCode hr) @ '', body='' @ content (Body hr))"
  from False assms have "fst (Drop rsp w) = Returns (Some ?err)"
    by (simp add: Drop_def checkStatusCode_other run_deferred_def)
  moreover from False assms have "fst (JSON json_Decode rsp target w) = Returns (Some ?err)"
    by (simp add: JSON_def checkStatusCode_other run_deferred_def)
  moreover from False assms have "fst (WriteTo rsp wr w) = Returns (0, Some ?err)"
    by (simp add: WriteTo_def checkStatusCode_other run_deferred_def)
  moreover have "sublist (show_int (StatusCode hr)) (message ?err)"
    unfolding message.simps by (rule sublist_status_message(1))
  moreover have "sublist (content (Body hr)) (message ?err)"
    unfolding message.simps by (rule sublist_status_message(2))
  ultimately show ?thesis using False by blast
qed

text \<open>An instance: status 404 with the body \<^verbatim>\<open>not found\<close>.\<close>

theorem status_policy_witness:
  "\<exists>err. fst (Drop not_found_Response world0) = Returns (Some err)
       \<and> fst (JSON example_Decode not_found_Response False world0) = Returns (Some err)
       \<and> fst (WriteTo not_found_Response sink0 world0) = Returns (0, Some err)
       \<and> sublist ''404'' (message err) \<and> sublist ''not found'' (message err)"
proof -
  let ?hr = "\<lparr>StatusCode = 404, Body = \<lparr>content = ''not found'', read_err = None\<rparr>\<rparr>"
  let ?rq = "\<lparr>Request_HTTP = None, Request_Err = None, Request_Cancel = Some 0,
              Request_Client = None\<rparr>"
  have h1: "Response_Err not_found_Response = None"
    and h2: "Response_HTTP not_found_Response = Some ?hr"
    and h3: "Response_Request not_found_Response = Some ?rq"
    and h4: "Request_Cancel ?rq = Some 0"
    and h5: "StatusCode ?hr \<noteq> 200"
    by (simp_all add: not_found_Response_def)
  from status_policy [OF h1 h2 h3 h4, of world0 example_Decode False sink0] h5
  show ?thesis by (auto simp: show_int_404)
qed

text \<open>
  Claim C3: along every path that ends with one call of \<open>Drop\<close>, \<open>JSON\<close> or \<open>WriteTo\<close>,
  the cancel function of the request's context is called exactly once. The source does
  not do this when the HTTP call itself fails: \<open>Invoke\<close> returns a response with \<^verbatim>\<open>Err\<close>
  set, and \<open>Drop\<close> returns that error before it reaches \<^verbatim>\<open>defer rsp.Request.Cancel()\<close>.
  Evaluated for \<^verbatim>\<open>Get("http://example.com/").Invoke().Drop()\<close> on a network that refuses
  the connection: the request holds the cancel function of context 0, one context has
  been created, and its cancel function has been called zero times.
\<close>

theorem cancel_leak_on_transport_failure:
  "Request_Cancel (fst (Get example_Parse default_Client ''http://example.com/'' world0)) = Some 0
   \<and> fst (Get_Invoke_Drop example_Parse refusing_Do default_Client ''http://example.com/'' world0)
       = Returns (Some (TransportError ''connection refused''))
   \<and> contexts_created
       (snd (Get_Invoke_Drop example_Parse refusing_Do default_Client ''http://example.com/'' world0)) = 1
   \<and> cancel_count 0
       (snd (Get_Invoke_Drop example_Parse refusing_Do default_Client ''http://example.com/'' world0)) = 0"
  by (simp add: Get_Invoke_Drop_def Get_def example_makeRequest
        Invoke_def refusing_Do_def Drop_def world0_def context_WithTimeout_def emit_def
        contexts_created_def cancel_count_def)



text \<open>
  Claim C5: on a request whose \<^verbatim>\<open>Err\<close> is set, \<open>Invoke\<close> makes no HTTP call (the world is
  unchanged, whatever the network would answer) and returns a response with the same
  error and no embedded HTTP response; on a response whose \<^verbatim>\<open>Err\<close> is set, \<open>Drop\<close>,
  \<open>JSON\<close> and \<open>WriteTo\<close> return that error and leave the world, the decoding target and
  the writer as they were.
\<close>

theorem error_short_circuit:
  "(Request_Err req = Some e \<longrightarrow>
      Invoke Do req w =
        (Returns \<lparr>Response_HTTP = None, Response_Request = Some req, Response_Err = Some e\<rparr>, w))
   \<and> (Response_Err rsp = Some e \<longrightarrow>
        Drop rsp w = (Returns (Some e), w)
      \<and> JSON json_Decode rsp target w = (Returns (Some e), target, w)
      \<and> WriteTo rsp wr w = (Returns (0, Some e), wr, w))"
  by (simp add: Invoke_def Drop_def JSON_def WriteTo_def)

text \<open>An instance: the request of a URL that did not parse.\<close>

theorem error_short_circuit_witness:
  "Request_Err failed_Request = Some (UrlParseError ''missing protocol scheme'')
   \<and> Invoke echo_Do failed_Request world0 = (Returns failed_Response, world0)
   \<and> Response_Err failed_Response = Some (UrlParseError ''missing protocol scheme'')
   \<and> Drop failed_Response world0 = (Returns (Some (UrlParseError ''missing protocol scheme'')), world0)
   \<and> JSON example_Decode failed_Response False world0
       = (Returns (Some (UrlParseError ''missing protocol scheme'')), False, world0)
   \<and> WriteTo failed_Response sink0 world0
       = (Returns (0, Some (UrlParseError ''missing protocol scheme'')), sink0, world0)"
proof -
  have h1: "Request_Err failed_Request = Some (UrlParseError ''missing protocol scheme'')"
    by (simp add: failed_Request_def)
  have h2: "Response_Err failed_Response = Some (UrlParseError ''missing protocol scheme'')"
    by (simp add: failed_Response_def)
  from error_short_circuit [of failed_Request "UrlParseError ''missing protocol scheme''"
      echo_Do world0 failed_Response example_Decode False sink0] h1 h2
  show ?thesis by (simp add: failed_Response_def)
qed

text \<open>
  Claim C6: for a response with status 200 and no error, \<open>WriteTo\<close> appends exactly the
  bytes of the body to the writer and returns their number; the error it returns is nil
  when reading the body does not fail, and the read error otherwise. When the writer
  fails before it has taken the whole body, \<open>WriteTo\<close> returns the writer's error. The
  response is one that \<open>Invoke\<close> returns for a built request.
\<close>

theorem WriteTo_copies_body:
  assumes "Response_Err rsp = None" and "Response_HTTP rsp = Some hr" and "StatusCode hr = 200"
    and "Response_Request rsp = Some rq" and "Request_Cancel rq = Some i"
  shows "(accepts wr (length (content (Body hr))) \<longrightarrow>
            fst (WriteTo rsp wr w) = Returns (int (length (content (Body hr))), read_err (Body hr))
          \<and> written (fst (snd (WriteTo rsp wr w))) = written wr @ content (Body hr))
       \<and> (\<not> accepts wr (length (content (Body hr))) \<longrightarrow>
            (\<exists>n. fst (WriteTo rsp wr w) = Returns (n, Some (write_err wr))))"
  using assms
  by (auto simp: WriteTo_def checkStatusCode_200 run_deferred_def io_Copy_def accepts_def
        split: option.splits)

text \<open>An instance: the body \<^verbatim>\<open>1\<close> followed by a newline, as in the package's test.\<close>

theorem WriteTo_copies_body_witness:
  "fst (WriteTo ok_Response sink0 world0) = Returns (2, None)
   \<and> written (fst (snd (WriteTo ok_Response sink0 world0))) = ''1\<newline>''"
proof -
  let ?hr = "\<lparr>StatusCode = 200, Body = \<lparr>content = ''1\<newline>'', read_err = None\<rparr>\<rparr>"
  let ?rq = "\<lparr>Request_HTTP = None, Request_Err = None, Request_Cancel = Some 0,
              Request_Client = None\<rparr>"
  have h1: "Response_Err ok_Response = None"
    and h2: "Response_HTTP ok_Response = Some ?hr"
    and h3: "StatusCode ?hr = 200"
    and h4: "Response_Request ok_Response = Some ?rq"
    and h5: "Request_Cancel ?rq = Some 0"
    and h6: "accepts sink0 (length (content (Body ?hr)))"
    by (simp_all add: ok_Response_def accepts_def sink0_def)
  from WriteTo_copies_body [OF h1 h2 h3 h4 h5, of sink0 world0] h6
  show ?thesis by (simp add: sink0_def)
qed



text \<open>
  Claim C8: when the options' proxy string is not empty and does not parse as a URL,
  \<open>New\<close> returns the parse error and no client. \<open>New\<close> has no access to the network: its
  only arguments are the URL parser and the options.
\<close>

theorem New_malformed_proxy:
  "Options_Proxy opts \<noteq> [] \<Longrightarrow> url_Parse (Options_Proxy opts) = Inl e
     \<Longrightarrow> New url_Parse (Some opts) = Inl e"
  by (simp add: New_def Let_def)

text \<open>An instance: the proxy string \<^verbatim>\<open>:bad\<close>.\<close>

theorem New_malformed_proxy_witness:
  "Options_Proxy \<lparr>Options_Proxy = '':bad'', Options_UA = [], Options_Timeout = 0\<rparr> \<noteq> []
   \<and> example_Parse '':bad'' = Inl (UrlParseError ''missing protocol scheme'')
   \<and> New example_Parse (Some \<lparr>Options_Proxy = '':bad'', Options_UA = [], Options_Timeout = 0\<rparr>)
       = Inl (UrlParseError ''missing protocol scheme'')"
proof -
  let ?opts = "\<lparr>Options_Proxy = '':bad'', Options_UA = [], Options_Timeout = 0 :: 64 word\<rparr>"
  have h1: "Options_Proxy ?opts \<noteq> []" by simp
  have h2: "example_Parse (Options_Proxy ?opts) = Inl (UrlParseError ''missing protocol scheme'')"
    by (simp add: example_Parse_def)
  from New_malformed_proxy [of ?opts example_Parse, OF h1 h2] h1 h2 show ?thesis by simp
qed

text \<open>
  Claim C9: a request built by \<open>Get\<close>, \<open>PostJSON\<close> or \<open>PostForm\<close> with \<^verbatim>\<open>Err\<close> unset belongs
  to the client that built it and has the header \<^verbatim>\<open>User-Agent\<close> set to that client's UA;
  \<open>PostJSON\<close> also sets \<^verbatim>\<open>Content-Type\<close> to \<^verbatim>\<open>application/json\<close>, and \<open>PostForm\<close> sets it
  to \<^verbatim>\<open>application/x-www-form-urlencoded\<close>.
\<close>

theorem built_request_headers:
  "(Request_Err (fst (Get url_Parse c url w)) = None \<longrightarrow>
      header_of (fst (Get url_Parse c url w)) ''User-Agent'' = Some (UA c)
    \<and> Request_Client (fst (Get url_Parse c url w)) = Some c)
   \<and> (Request_Err (fst (PostJSON json_Marshal url_Parse c url v w)) = None \<longrightarrow>
      header_of (fst (PostJSON json_Marshal url_Parse c url v w)) ''User-Agent'' = Some (UA c)
    \<and> header_of (fst (PostJSON json_Marshal url_Parse c url v w)) ''Content-Type''
        = Some ''application/json''
    \<and> Request_Client (fst (PostJSON json_Marshal url_Parse c url v w)) = Some c)
   \<and> (Request_Err (fst (PostForm values_Encode url_Parse c url vals w)) = None \<longrightarrow>
      header_of (fst (PostForm values_Encode url_Parse c url vals w)) ''User-Agent'' = Some (UA c)
    \<and> header_of (fst (PostForm values_Encode url_Parse c url vals w)) ''Content-Type''
        = Some ''application/x-www-form-urlencoded''
    \<and> Request_Client (fst (PostForm values_Encode url_Parse c url vals w)) = Some c)"
proof (cases "url_Parse url")
  case (Inl err)
  then show ?thesis
    by (cases "json_Marshal v")
       (simp_all add: Get_def PostJSON_def PostForm_def makeRequest_parse_error)
next
  case (Inr u)
  then show ?thesis
    by (cases "json_Marshal v")
       (simp_all add: Get_def PostJSON_def PostForm_def makeRequest_parse_ok header_of_def
          set_header_def)
qed

text \<open>An instance: the three constructors on \<^verbatim>\<open>http://example.com/\<close>.\<close>

theorem built_request_headers_witness:
  "Request_Err (fst (Get example_Parse default_Client ''http://example.com/'' world0)) = None
   \<and> header_of (fst (Get example_Parse default_Client ''http://example.com/'' world0)) ''User-Agent''
       = Some default_UA
   \<and> Request_Err (fst (PostJSON example_Marshal example_Parse default_Client ''http://example.com/''
                         True world0)) = None
   \<and> header_of (fst (PostJSON example_Marshal example_Parse default_Client ''http://example.com/''
                       True world0)) ''Content-Type''
       = Some ''application/json''
   \<and> Request_Err (fst (PostForm example_Encode example_Parse default_Client ''http://example.com/''
                         [(''q'', [''x''])] world0)) = None
   \<and> header_of (fst (PostForm example_Encode example_Parse default_Client ''http://example.com/''
                       [(''q'', [''x''])] world0)) ''Content-Type''
       = Some ''application/x-www-form-urlencoded''"
proof -
  have h1: "Request_Err (fst (Get example_Parse default_Client ''http://example.com/'' world0)) = None"
    by (simp add: Get_def example_makeRequest)
  have h2: "Request_Err (fst (PostJSON example_Marshal example_Parse default_Client
                                 ''http://example.com/'' True world0)) = None"
    by (simp add: PostJSON_def example_Marshal_def example_makeRequest set_header_def)
  have h3: "Request_Err (fst (PostForm example_Encode example_Parse default_Client
                                 ''http://example.com/'' [(''q'', [''x''])] world0)) = None"
    by (simp add: PostForm_def example_makeRequest set_header_def)
  from built_request_headers [of example_Parse default_Client "''http://example.com/''" world0
      example_Marshal True example_Encode "[(''q'', [''x''])]"] h1 h2 h3
  show ?thesis by (simp add: default_Client_def)
qed

text \<open>
  Claim C10: for every request, \<open>Invoke\<close> returns a response in which exactly one of the
  embedded HTTP response and the error is set and which refers to the request. The one
  other outcome is a panic, without any effect, on a request that has no error and lacks
  its client or its embedded request; no constructor of the package builds such a
  request.
\<close>

theorem Invoke_invariant:
  "(\<exists>rsp w'. Invoke Do req w = (Returns rsp, w')
       \<and> (Response_HTTP rsp = None) \<noteq> (Response_Err rsp = None)
       \<and> Response_Request rsp = Some req)
   \<or> (Invoke Do req w = (Panics, w) \<and> Request_Err req = None
       \<and> (Request_Client req = None \<or> Request_HTTP req = None))"
  by (auto simp: Invoke_def split: option.splits sum.splits)

text \<open>An instance: a request built by \<open>Get\<close>, on a network that refuses the connection.\<close>

theorem Invoke_invariant_witness:
  "\<exists>rsp w'. Invoke refusing_Do (fst (Get example_Parse default_Client ''http://example.com/'' world0))
               world0 = (Returns rsp, w')
       \<and> (Response_HTTP rsp = None) \<noteq> (Response_Err rsp = None)
       \<and> Response_Request rsp
           = Some (fst (Get example_Parse default_Client ''http://example.com/'' world0))"
proof -
  let ?req = "fst (Get example_Parse default_Client ''http://example.com/'' world0)"
  have "Request_Client ?req \<noteq> None" and "Request_HTTP ?req \<noteq> None"
    by (simp_all add: Get_def example_makeRequest)
  with Invoke_invariant [of refusing_Do ?req world0] show ?thesis by blast
qed

end
